theory Spec2Isabelle
  imports Main "HOL-Library.Sublist"
begin

section \<open>Shared models\<close>

text \<open>
  The class \<open>Course\<close> of \<open>main.py\<close>. Python integers are unbounded, so the two counters
  are of type \<open>int\<close>. The field \<open>schedule\<close> is the same constant dictionary for every
  instance and is never assigned again; it is the constant \<open>schedule\<close> below.
\<close>

record Course =
  course_id :: string
  name :: string
  instructor :: string
  capacity :: int
  enrolled :: int
  prerequisites :: "string list"

text \<open>
  A Python float is kept by its exact value: \<open>Finite m e\<close> is the float \<open>m * 2 ** e\<close>, beside
  the two infinities and \<open>nan\<close>. Floating-point arithmetic is not computed here: the one
  float expression of the program, \<open>round((a / b) * 100, 2)\<close>, is a parameter \<open>pct\<close> of the
  functions that evaluate it.
\<close>

datatype pyfloat = Finite int int | PosInf | NegInf | NaN

text \<open>
  Python values that travel through request bodies, response payloads and event data. A
  request body holds JSON values only. \<open>PCourse c b\<close> is a \<open>Course\<close> object; \<open>b\<close> says that
  its \<open>capacity\<close> attribute is a \<open>bool\<close> (which \<open>create_course\<close> keeps as it is, since a
  \<open>bool\<close> is an \<open>int\<close>), with \<open>capacity c\<close> its value as a number, 1 or 0.
\<close>

datatype pyval =
    PNone
  | PBool bool
  | PInt int
  | PFloat pyfloat
  | PStr string
  | PList "pyval list"
  | PDict "(string \<times> pyval) list"
  | PCourse Course bool

text \<open>
  The exception classes. \<open>QueueEmpty\<close> is \<open>queue.Empty\<close>; \<open>OtherException\<close> is any other
  subclass of \<open>Exception\<close> and \<open>OtherBaseException\<close> any other class outside \<open>Exception\<close>,
  by name.
\<close>

datatype exc =
    AttributeError | TypeError | KeyError | ZeroDivisionError | StopIteration
  | OverflowError | QueueEmpty | OtherException string
  | SystemExit | KeyboardInterrupt | GeneratorExit | OtherBaseException string


text \<open>
  What a Flask view produces: a status code with a JSON payload, or an exception that
  leaves the view (Flask answers 500).
\<close>

datatype response = Response nat pyval | Unhandled exc

definition schedule :: pyval where
  "schedule = PDict [(''days'', PList [PStr ''Mon'', PStr ''Wed'']),
                     (''time'', PStr ''10:00-11:30''),
                     (''location'', PStr ''Room 101'')]"

text \<open>\<open>isinstance(v, str)\<close> on the result of \<open>dict.get\<close>.\<close>

fun get_str :: "pyval option \<Rightarrow> string option" where
  "get_str (Some (PStr s)) = Some s"
| "get_str _ = None"

text \<open>\<open>sep.join(xs)\<close>.\<close>

fun join :: "string \<Rightarrow> string list \<Rightarrow> string" where
  "join sep [] = []"
| "join sep [x] = x"
| "join sep (x # y # ys) = x @ sep @ join sep (y # ys)"

section \<open>Validation strategies\<close>

text \<open>
  A validation result is the dictionary \<open>{"valid": ..., "message": ...}\<close>. The context is
  the dictionary the caller builds; \<open>context.get("course")\<close> is \<open>None\<close> when the key is
  missing, and the two list entries default to \<open>[]\<close>.
\<close>

record vresult =
  valid :: bool
  message :: string

record context_dict =
  course :: "Course option"
  student_completed_courses :: "string list"
  student_current_courses :: "string list"

type_synonym strategy = "string \<Rightarrow> string \<Rightarrow> context_dict \<Rightarrow> vresult"

definition PrerequisiteValidationStrategy_validate :: strategy where
  "PrerequisiteValidationStrategy_validate student_id cid ctx =
     (case course ctx of
        None \<Rightarrow> \<lparr>valid = True, message = ''No prerequisites required''\<rparr>
      | Some c \<Rightarrow>
          if prerequisites c = [] then \<lparr>valid = True, message = ''No prerequisites required''\<rparr>
          else
            (let missing_prereqs =
                   filter (\<lambda>prereq. prereq \<notin> set (student_completed_courses ctx)) (prerequisites c)
             in if missing_prereqs \<noteq> []
                then \<lparr>valid = False,
                      message = ''Missing prerequisites: '' @ join '', '' missing_prereqs\<rparr>
                else \<lparr>valid = True, message = ''Prerequisites satisfied''\<rparr>))"

definition CapacityValidationStrategy_validate :: strategy where
  "CapacityValidationStrategy_validate student_id cid ctx =
     (case course ctx of
        None \<Rightarrow> \<lparr>valid = False, message = ''Course not found''\<rparr>
      | Some c \<Rightarrow>
          if enrolled c \<ge> capacity c
          then \<lparr>valid = False, message = ''Course is at full capacity''\<rparr>
          else \<lparr>valid = True, message = ''Capacity available''\<rparr>)"

definition ScheduleConflictValidationStrategy_validate :: strategy where
  "ScheduleConflictValidationStrategy_validate student_id cid ctx =
     (let student_schedule = student_current_courses ctx in
      case course ctx of
        None \<Rightarrow> \<lparr>valid = False, message = ''Course not found''\<rparr>
      | Some c \<Rightarrow>
          if length student_schedule \<ge> 5
          then \<lparr>valid = False, message = ''Schedule conflict: Maximum 5 courses allowed''\<rparr>
          else \<lparr>valid = True, message = ''No schedule conflicts''\<rparr>)"

text \<open>
  \<open>ValidationContext.validate_all\<close>: the loop appends each result and breaks after the
  first one that is not valid. \<open>results\<close> is the list built so far.
\<close>

fun validate_loop :: "strategy list \<Rightarrow> string \<Rightarrow> string \<Rightarrow> context_dict \<Rightarrow> vresult list \<Rightarrow> vresult list" where
  "validate_loop [] student_id cid ctx results = results"
| "validate_loop (strategy # rest) student_id cid ctx results =
     (let result = strategy student_id cid ctx;
          results' = results @ [result]
      in if \<not> valid result then results' else validate_loop rest student_id cid ctx results')"

definition validate_all :: "strategy list \<Rightarrow> string \<Rightarrow> string \<Rightarrow> context_dict \<Rightarrow> vresult list" where
  "validate_all strategies student_id cid ctx = validate_loop strategies student_id cid ctx []"

section \<open>Dictionaries, requests, events\<close>

text \<open>
  A Python dictionary keeps its keys in insertion order, so it is an association list:
  \<open>map_of\<close> reads it, \<open>dict_set\<close> is the assignment \<open>d[k] = v\<close> (an existing key keeps
  its place, a new key goes to the end).
\<close>

fun dict_set :: "'k \<Rightarrow> 'v \<Rightarrow> ('k \<times> 'v) list \<Rightarrow> ('k \<times> 'v) list" where
  "dict_set k v [] = [(k, v)]"
| "dict_set k v ((k', v') # kvs) =
     (if k' = k then (k, v) # kvs else (k', v') # dict_set k v kvs)"

text \<open>
  The body of a request after \<open>request.get_json(silent=True) or {}\<close>: a JSON object, a
  missing, unparseable or falsy body (which becomes \<open>{}\<close>), or another JSON value, on which
  the first \<open>data.get\<close> raises \<open>AttributeError\<close>.
\<close>

datatype request_body = JsonObject "(string \<times> pyval) list" | FalsyBody | OtherBody

fun get_json :: "request_body \<Rightarrow> exc + (string \<times> pyval) list" where
  "get_json (JsonObject d) = Inr d"
| "get_json FalsyBody = Inr []"
| "get_json OtherBody = Inl AttributeError"

text \<open>
  The class \<open>Event\<close>. \<open>timestamp\<close> is the reading of \<open>datetime.now()\<close>; every clock reading
  of one request is the argument \<open>now\<close> of its view.
\<close>

record Event =
  event_type :: string
  data :: "(string \<times> pyval) list"
  timestamp :: string

text \<open>\<open>str(n)\<close> for a natural number and for an integer.\<close>

fun str_of_nat :: "nat \<Rightarrow> string" where
  "str_of_nat n =
     (if n < 10 then [char_of (48 + n)]
      else str_of_nat (n div 10) @ [char_of (48 + n mod 10)])"

definition str_of_int :: "int \<Rightarrow> string" where
  "str_of_int i = (if i < 0 then CHR ''-'' # str_of_nat (nat (- i)) else str_of_nat (nat i))"

section \<open>Response shaping factories\<close>

definition unsupported :: pyval where
  "unsupported = PDict [(''error'', PStr ''Unsupported data type'')]"

text \<open>The attribute \<open>capacity\<close> of a course object as a payload value.\<close>

definition capacity_value :: "Course \<Rightarrow> bool \<Rightarrow> pyval" where
  "capacity_value c b = (if b then PBool (capacity c \<noteq> 0) else PInt (capacity c))"

definition student_course_dto :: "Course \<Rightarrow> pyval" where
  "student_course_dto c =
     PDict [(''course_id'', PStr (course_id c)),
            (''name'', PStr (name c)),
            (''instructor'', PStr (instructor c)),
            (''available_seats'', PInt (capacity c - enrolled c)),
            (''schedule'', schedule),
            (''prerequisites'', PList (map PStr (prerequisites c))),
            (''can_enroll'', PBool True)]"

fun StudentDTOFactory_create_response_dto :: "pyval \<Rightarrow> pyval" where
  "StudentDTOFactory_create_response_dto (PCourse c b) = student_course_dto c"
| "StudentDTOFactory_create_response_dto (PList xs) =
     PDict [(''courses'', PList (map StudentDTOFactory_create_response_dto xs))]"
| "StudentDTOFactory_create_response_dto _ = unsupported"

text \<open>
  \<open>len(v)\<close>: defined on strings, lists and dictionaries, \<open>TypeError\<close> elsewhere. (A string
  is the list of its characters, one element for each.)
\<close>

fun py_len :: "pyval \<Rightarrow> exc + nat" where
  "py_len (PStr s) = Inr (length s)"
| "py_len (PList xs) = Inr (length xs)"
| "py_len (PDict d) = Inr (length d)"
| "py_len _ = Inl TypeError"

text \<open>
  \<open>round((a / b) * 100, 2)\<close> for integers \<open>a\<close> and \<open>b\<close>. The division raises
  \<open>ZeroDivisionError\<close> when \<open>b\<close> is zero, and \<open>OverflowError\<close> when the quotient, rounded to
  a float, is beyond the largest float (from \<open>2 ** 1024 - 2 ** 970\<close> on in absolute value);
  the multiplication and \<open>round\<close> do not raise. The float that results is \<open>pct a b\<close>.
\<close>

definition int_true_div_overflows :: "int \<Rightarrow> int \<Rightarrow> bool" where
  "int_true_div_overflows a b \<longleftrightarrow> (2 ^ 1024 - 2 ^ 970) * \<bar>b\<bar> \<le> \<bar>a\<bar>"

definition round_percent :: "(int \<Rightarrow> int \<Rightarrow> pyfloat) \<Rightarrow> int \<Rightarrow> int \<Rightarrow> exc + pyval" where
  "round_percent pct a b =
     (if b = 0 then Inl ZeroDivisionError
      else if int_true_div_overflows a b then Inl OverflowError
      else Inr (PFloat (pct a b)))"

fun FacultyDTOFactory_create_response_dto :: "(int \<Rightarrow> int \<Rightarrow> pyfloat) \<Rightarrow> pyval \<Rightarrow> exc + pyval" where
  "FacultyDTOFactory_create_response_dto pct (PCourse c b) =
     (case round_percent pct (enrolled c) (capacity c) of
        Inl e \<Rightarrow> Inl e
      | Inr percentage \<Rightarrow>
          Inr (PDict [(''course_id'', PStr (course_id c)),
                      (''name'', PStr (name c)),
                      (''enrollment_count'', PInt (enrolled c)),
                      (''capacity'', capacity_value c b),
                      (''enrollment_percentage'', percentage)]))"
| "FacultyDTOFactory_create_response_dto pct (PDict d) =
     (case map_of d ''students'' of
        None \<Rightarrow> Inr unsupported
      | Some students \<Rightarrow>
          (case py_len students of
             Inl e \<Rightarrow> Inl e
           | Inr n \<Rightarrow>
               Inr (PDict [(''course_id'', (case map_of d ''course_id'' of None \<Rightarrow> PNone | Some v \<Rightarrow> v)),
                           (''students'', students),
                           (''total_enrolled'', PInt (int n))])))"
| "FacultyDTOFactory_create_response_dto pct _ = Inr unsupported"

text \<open>
  The admin factory reads the clock in its report branch
  (\<open>datetime.now().isoformat()\<close>): \<open>now\<close> is that reading.
\<close>

fun AdminDTOFactory_create_response_dto :: "(int \<Rightarrow> int \<Rightarrow> pyfloat) \<Rightarrow> string \<Rightarrow> pyval \<Rightarrow> exc + pyval" where
  "AdminDTOFactory_create_response_dto pct now (PCourse c b) =
     (case round_percent pct (enrolled c) (capacity c) of
        Inl e \<Rightarrow> Inl e
      | Inr rate \<Rightarrow>
          Inr (PDict [(''course_id'', PStr (course_id c)),
                      (''name'', PStr (name c)),
                      (''instructor'', PStr (instructor c)),
                      (''capacity'', capacity_value c b),
                      (''enrolled'', PInt (enrolled c)),
                      (''utilization_rate'', rate),
                      (''schedule'', schedule),
                      (''prerequisites'', PList (map PStr (prerequisites c))),
                      (''status'', PStr ''active'')]))"
| "AdminDTOFactory_create_response_dto pct now (PDict d) =
     (case map_of d ''report_type'' of
        None \<Rightarrow> Inr unsupported
      | Some report_type \<Rightarrow>
          Inr (PDict [(''report_type'', report_type),
                      (''generated_at'', PStr now),
                      (''data'', (case map_of d ''data'' of None \<Rightarrow> PList [] | Some v \<Rightarrow> v)),
                      (''summary'', (case map_of d ''summary'' of None \<Rightarrow> PDict [] | Some v \<Rightarrow> v))]))"
| "AdminDTOFactory_create_response_dto pct now _ = Inr unsupported"

section \<open>Student service\<close>

text \<open>
  An entry of \<open>student_data\<close>. The enrollment history holds the dictionaries
  \<open>{"course_id", "action", "timestamp"}\<close> the view appends.
\<close>

record student_record =
  completed_courses :: "string list"
  current_courses :: "string list"
  enrollment_history :: "pyval list"

text \<open>
  Every service holds its own dictionary of course objects under \<open>courses\<close>; \<open>'c\<close> is what
  a service keeps of a course object.
\<close>

record 'c service =
  courses :: "(string \<times> 'c) list"

record student_service = "Course service" +
  student_data :: "(string \<times> student_record) list"

definition StudentService_init :: student_service where
  "StudentService_init =
     \<lparr>courses =
        [(''CS101'', \<lparr>course_id = ''CS101'', name = ''Intro to Programming'', instructor = ''Dr. Smith'',
                      capacity = 30, enrolled = 25, prerequisites = []\<rparr>),
         (''CS201'', \<lparr>course_id = ''CS201'', name = ''Data Structures'', instructor = ''Dr. Johnson'',
                      capacity = 25, enrolled = 20, prerequisites = [''CS101'']\<rparr>),
         (''CS301'', \<lparr>course_id = ''CS301'', name = ''Algorithms'', instructor = ''Dr. Brown'',
                      capacity = 20, enrolled = 15, prerequisites = [''CS101'', ''CS201'']\<rparr>)],
      student_data =
        [(''STU001'', \<lparr>completed_courses = [''CS101''], current_courses = [''CS201''],
                       enrollment_history = []\<rparr>)]\<rparr>"

text \<open>\<open>GET /courses\<close> of the student service.\<close>

definition get_courses :: "student_service \<Rightarrow> response" where
  "get_courses st =
     Response 200 (StudentDTOFactory_create_response_dto (PList (map (\<lambda>kv. PCourse (snd kv) False) (courses st))))"

text \<open>The validators \<open>enroll_student\<close> adds, in the order it adds them.\<close>

definition enroll_strategies :: "Course \<Rightarrow> strategy list" where
  "enroll_strategies c =
     (if prerequisites c \<noteq> [] then [PrerequisiteValidationStrategy_validate] else [])
     @ [CapacityValidationStrategy_validate, ScheduleConflictValidationStrategy_validate]"

text \<open>
  The context dictionary of \<open>enroll_student\<close>:
  \<open>self.student_data.get(student_id, {}).get(key, [])\<close> is \<open>[]\<close> for an unknown student.
\<close>

definition enroll_context :: "student_service \<Rightarrow> string \<Rightarrow> Course \<Rightarrow> context_dict" where
  "enroll_context st student_id c =
     \<lparr>course = Some c,
      student_completed_courses =
        (case map_of (student_data st) student_id of None \<Rightarrow> [] | Some r \<Rightarrow> completed_courses r),
      student_current_courses =
        (case map_of (student_data st) student_id of None \<Rightarrow> [] | Some r \<Rightarrow> current_courses r)\<rparr>"

definition vresult_json :: "vresult \<Rightarrow> pyval" where
  "vresult_json r = PDict [(''valid'', PBool (valid r)), (''message'', PStr (message r))]"

definition student_enrolled_event :: "string \<Rightarrow> string \<Rightarrow> string \<Rightarrow> Event" where
  "student_enrolled_event now student_id cid =
     \<lparr>event_type = ''student_enrolled'',
      data = [(''student_id'', PStr student_id),
              (''course_id'', PStr cid),
              (''advisor_email'', PStr (''advisor_'' @ student_id @ ''@university.edu''))],
      timestamp = now\<rparr>"

definition student_dropped_event :: "string \<Rightarrow> string \<Rightarrow> string \<Rightarrow> Event" where
  "student_dropped_event now student_id cid =
     \<lparr>event_type = ''student_dropped'',
      data = [(''student_id'', PStr student_id), (''course_id'', PStr cid)],
      timestamp = now\<rparr>"

text \<open>
  The state change of a successful enrollment: \<open>course.enrolled += 1\<close> on the course object
  held under \<open>cid\<close>, a fresh record for an unknown student, and the two appends.
\<close>

definition enroll_commit :: "string \<Rightarrow> string \<Rightarrow> string \<Rightarrow> Course \<Rightarrow> student_service \<Rightarrow> student_service" where
  "enroll_commit now student_id cid c st =
     (let r = (case map_of (student_data st) student_id of
                 None \<Rightarrow> \<lparr>completed_courses = [], current_courses = [], enrollment_history = []\<rparr>
               | Some r \<Rightarrow> r);
          r' = r\<lparr>current_courses := current_courses r @ [cid],
                 enrollment_history := enrollment_history r @
                   [PDict [(''course_id'', PStr cid), (''action'', PStr ''enrolled''),
                           (''timestamp'', PStr now)]]\<rparr>
      in st\<lparr>courses := dict_set cid (c\<lparr>enrolled := enrolled c + 1\<rparr>) (courses st),
            student_data := dict_set student_id r' (student_data st)\<rparr>)"

text \<open>
  \<open>POST /enroll\<close>. The view returns its response, the new state of the service and the
  events it publishes on the bus.
\<close>

definition enroll_student :: "string \<Rightarrow> request_body \<Rightarrow> student_service \<Rightarrow> response \<times> student_service \<times> Event list" where
  "enroll_student now body st =
     (case get_json body of
        Inl e \<Rightarrow> (Unhandled e, st, [])
      | Inr d \<Rightarrow>
          (case (get_str (map_of d ''student_id''), get_str (map_of d ''course_id'')) of
             (Some student_id, Some cid) \<Rightarrow>
               (case map_of (courses st) cid of
                  None \<Rightarrow> (Response 404 (PDict [(''error'', PStr ''Course not found'')]), st, [])
                | Some c \<Rightarrow>
                    (let validation_results =
                           validate_all (enroll_strategies c) student_id cid (enroll_context st student_id c)
                     in if \<not> list_all valid validation_results
                        then
                          (case find (\<lambda>result. \<not> valid result) validation_results of
                             None \<Rightarrow> (Unhandled StopIteration, st, [])
                           | Some failed_validation \<Rightarrow>
                               (Response 400
                                  (PDict [(''success'', PBool False),
                                          (''message'', PStr (message failed_validation)),
                                          (''validation_results'', PList (map vresult_json validation_results))]),
                                st, []))
                        else
                          (Response 200
                             (PDict [(''success'', PBool True),
                                     (''message'', PStr (''Successfully enrolled in '' @ name c)),
                                     (''validation_results'', PList (map vresult_json validation_results))]),
                           enroll_commit now student_id cid c st,
                           [student_enrolled_event now student_id cid])))
           | _ \<Rightarrow> (Response 400 (PDict [(''error'', PStr ''Invalid payload'')]), st, [])))"

text \<open>\<open>POST /drop\<close>; \<open>list.remove\<close> deletes the first occurrence, as \<open>remove1\<close> does.\<close>

definition drop_course :: "string \<Rightarrow> request_body \<Rightarrow> student_service \<Rightarrow> response \<times> student_service \<times> Event list" where
  "drop_course now body st =
     (case get_json body of
        Inl e \<Rightarrow> (Unhandled e, st, [])
      | Inr d \<Rightarrow>
          (case (get_str (map_of d ''student_id''), get_str (map_of d ''course_id'')) of
             (Some student_id, Some cid) \<Rightarrow>
               (case map_of (courses st) cid of
                  None \<Rightarrow> (Response 404 (PDict [(''error'', PStr ''Course not found'')]), st, [])
                | Some c \<Rightarrow>
                    (case map_of (student_data st) student_id of
                       Some r \<Rightarrow>
                         if cid \<in> set (current_courses r)
                         then
                           (Response 200
                              (PDict [(''success'', PBool True),
                                      (''message'', PStr (''Successfully dropped '' @ name c))]),
                            st\<lparr>courses := dict_set cid (c\<lparr>enrolled := enrolled c - 1\<rparr>) (courses st),
                               student_data :=
                                 dict_set student_id (r\<lparr>current_courses := remove1 cid (current_courses r)\<rparr>)
                                   (student_data st)\<rparr>,
                            [student_dropped_event now student_id cid])
                         else (Response 400 (PDict [(''error'', PStr ''Student not enrolled in this course'')]), st, [])
                     | None \<Rightarrow>
                         (Response 400 (PDict [(''error'', PStr ''Student not enrolled in this course'')]), st, [])))
           | _ \<Rightarrow> (Response 400 (PDict [(''error'', PStr ''Invalid payload'')]), st, [])))"

text \<open>A request to the student service, and a run of requests from a state.\<close>

datatype student_request = Enroll string request_body | Drop string request_body

fun student_step :: "student_request \<Rightarrow> student_service \<Rightarrow> student_service" where
  "student_step (Enroll now body) st = fst (snd (enroll_student now body st))"
| "student_step (Drop now body) st = fst (snd (drop_course now body st))"

definition run_requests :: "student_request list \<Rightarrow> student_service \<Rightarrow> student_service" where
  "run_requests reqs st = fold student_step reqs st"

section \<open>Grade processing strategies\<close>

datatype GradeProcessingStrategy = LetterGradeStrategy | PassFailGradeStrategy

fun VALID :: "GradeProcessingStrategy \<Rightarrow> string set" where
  "VALID LetterGradeStrategy =
     {''A'', ''A-'', ''B+'', ''B'', ''B-'', ''C+'', ''C'', ''C-'', ''D'', ''F''}"
| "VALID PassFailGradeStrategy = {''P'', ''F''}"

fun scheme :: "GradeProcessingStrategy \<Rightarrow> string" where
  "scheme LetterGradeStrategy = ''letter''"
| "scheme PassFailGradeStrategy = ''pass_fail''"

text \<open>Lists and dictionaries cannot be hashed; every other value can.\<close>

fun hashable :: "pyval \<Rightarrow> bool" where
  "hashable (PList xs) = False"
| "hashable (PDict d) = False"
| "hashable _ = True"

text \<open>
  \<open>g.get("grade") not in self.VALID\<close> for one element \<open>g\<close> of the batch: \<open>g.get\<close> exists
  only on a dictionary, and the membership test hashes the grade.
\<close>

fun grade_not_in :: "string set \<Rightarrow> pyval \<Rightarrow> exc + bool" where
  "grade_not_in V (PDict d) =
     (case map_of d ''grade'' of
        None \<Rightarrow> Inr True
      | Some (PStr s) \<Rightarrow> Inr (s \<notin> V)
      | Some v \<Rightarrow> (if hashable v then Inr True else Inl TypeError))"
| "grade_not_in V _ = Inl AttributeError"

text \<open>The list comprehension of \<open>process\<close>: the first element that raises ends it.\<close>

fun invalid_entries :: "string set \<Rightarrow> pyval list \<Rightarrow> exc + pyval list" where
  "invalid_entries V [] = Inr []"
| "invalid_entries V (g # gs) =
     (case grade_not_in V g of
        Inl e \<Rightarrow> Inl e
      | Inr bad \<Rightarrow>
          (case invalid_entries V gs of
             Inl e \<Rightarrow> Inl e
           | Inr rest \<Rightarrow> Inr (if bad then g # rest else rest)))"

definition process :: "GradeProcessingStrategy \<Rightarrow> pyval list \<Rightarrow> exc + pyval" where
  "process strategy grades_data =
     (case invalid_entries (VALID strategy) grades_data of
        Inl e \<Rightarrow> Inl e
      | Inr invalid \<Rightarrow>
          Inr (PDict [(''scheme'', PStr (scheme strategy)),
                      (''valid'', PBool (length invalid = 0)),
                      (''invalid_entries'', PList invalid)]))"

definition GradeProcessor_process :: "GradeProcessingStrategy \<Rightarrow> pyval list \<Rightarrow> exc + pyval" where
  "GradeProcessor_process strategy grades_data = process strategy grades_data"

section \<open>Faculty service\<close>

text \<open>
  Equality of two hashable values as a dictionary compares its keys: \<open>bool\<close>, \<open>int\<close> and
  finite \<open>float\<close> are compared as numbers (\<open>True == 1 == 1.0\<close>), \<open>nan\<close> equals nothing, and
  values of other types are equal when they are the same. (Objects hash by identity; a
  request body holds none.)
\<close>

fun py_num :: "pyval \<Rightarrow> (int \<times> int) option" where
  "py_num (PBool b) = Some (if b then 1 else 0, 0)"
| "py_num (PInt n) = Some (n, 0)"
| "py_num (PFloat (Finite m e)) = Some (m, e)"
| "py_num _ = None"

definition same_number :: "int \<times> int \<Rightarrow> int \<times> int \<Rightarrow> bool" where
  "same_number x y \<longleftrightarrow>
     fst x * 2 ^ nat (snd x - min (snd x) (snd y)) = fst y * 2 ^ nat (snd y - min (snd x) (snd y))"

definition py_eq :: "pyval \<Rightarrow> pyval \<Rightarrow> bool" where
  "py_eq a b =
     (case (py_num a, py_num b) of
        (Some x, Some y) \<Rightarrow> same_number x y
      | (None, None) \<Rightarrow> a = b \<and> a \<noteq> PFloat NaN
      | _ \<Rightarrow> False)"

text \<open>
  The assignment \<open>d[k] = v\<close> on a dictionary with keys of any hashable type: an equal key
  keeps its place and its key object, and gets the new value.
\<close>

fun py_dict_set :: "pyval \<Rightarrow> 'v \<Rightarrow> (pyval \<times> 'v) list \<Rightarrow> (pyval \<times> 'v) list" where
  "py_dict_set k v [] = [(k, v)]"
| "py_dict_set k v ((k', v') # kvs) =
     (if py_eq k' k then (k', v) # kvs else (k', v') # py_dict_set k v kvs)"

text \<open>
  \<open>grades\<close> maps a course id to the dictionary from student id to grade; the student id
  of a grade entry is whatever hashable value the request carries.
\<close>

record faculty_service = "Course service" +
  rosters :: "(string \<times> string list) list"
  grades :: "(string \<times> (pyval \<times> pyval) list) list"

definition FacultyService_init :: faculty_service where
  "FacultyService_init =
     \<lparr>courses =
        [(''CS101'', \<lparr>course_id = ''CS101'', name = ''Intro to Programming'', instructor = ''Dr. Smith'',
                      capacity = 30, enrolled = 25, prerequisites = []\<rparr>),
         (''CS201'', \<lparr>course_id = ''CS201'', name = ''Data Structures'', instructor = ''Dr. Johnson'',
                      capacity = 25, enrolled = 20, prerequisites = []\<rparr>)],
      rosters =
        [(''CS101'', [''STU001'', ''STU002'', ''STU003'']),
         (''CS201'', [''STU001'', ''STU004'', ''STU005''])],
      grades = []\<rparr>"

text \<open>\<open>GET /roster/<course_id>\<close>.\<close>

definition get_roster :: "(int \<Rightarrow> int \<Rightarrow> pyfloat) \<Rightarrow> string \<Rightarrow> faculty_service \<Rightarrow> response" where
  "get_roster pct cid fs =
     (case map_of (rosters fs) cid of
        None \<Rightarrow> Response 404 (PDict [(''error'', PStr ''Course not found'')])
      | Some roster \<Rightarrow>
          (case FacultyDTOFactory_create_response_dto pct
                  (PDict [(''course_id'', PStr cid),
                          (''students'',
                           PList (map (\<lambda>sid. PDict [(''student_id'', PStr sid),
                                                     (''name'', PStr (''Student '' @ sid))]) roster))]) of
             Inl e \<Rightarrow> Unhandled e
           | Inr payload \<Rightarrow> Response 200 payload))"

text \<open>
  \<open>course_id not in self.courses\<close> for the value \<open>data.get('course_id')\<close>: the test hashes
  the value, and only a string can equal a key. The result is the key when it is known.
\<close>

fun known_course :: "pyval option \<Rightarrow> (string \<times> 'c) list \<Rightarrow> exc + string option" where
  "known_course (Some (PStr s)) cs = Inr (if s \<in> fst ` set cs then Some s else None)"
| "known_course (Some v) cs = (if hashable v then Inr None else Inl TypeError)"
| "known_course None cs = Inr None"

text \<open>\<open>g[key]\<close> with a string key: a dictionary answers, any other value raises.\<close>

fun subscript :: "pyval \<Rightarrow> string \<Rightarrow> exc + pyval" where
  "subscript (PDict d) key = (case map_of d key of None \<Rightarrow> Inl KeyError | Some v \<Rightarrow> Inr v)"
| "subscript _ key = Inl TypeError"

definition grade_submitted_event :: "string \<Rightarrow> pyval \<Rightarrow> string \<Rightarrow> pyval \<Rightarrow> Event" where
  "grade_submitted_event now student_id cid grade =
     \<lparr>event_type = ''grade_submitted'',
      data = [(''student_id'', student_id), (''course_id'', PStr cid), (''grade'', grade)],
      timestamp = now\<rparr>"

text \<open>
  The storing loop of \<open>submit_grades\<close>. An exception leaves the loop with what the earlier
  iterations stored and published.
\<close>

fun store_grades :: "string \<Rightarrow> string \<Rightarrow> pyval list \<Rightarrow> faculty_service \<times> Event list \<Rightarrow> exc option \<times> faculty_service \<times> Event list" where
  "store_grades now cid [] (fs, evs) = (None, fs, evs)"
| "store_grades now cid (grade_entry # rest) (fs, evs) =
     (case subscript grade_entry ''student_id'' of
        Inl e \<Rightarrow> (Some e, fs, evs)
      | Inr student_id \<Rightarrow>
          (case subscript grade_entry ''grade'' of
             Inl e \<Rightarrow> (Some e, fs, evs)
           | Inr grade \<Rightarrow>
               (case map_of (grades fs) cid of
                  None \<Rightarrow> (Some KeyError, fs, evs)
                | Some course_grades \<Rightarrow>
                    if \<not> hashable student_id then (Some TypeError, fs, evs)
                    else store_grades now cid rest
                           (fs\<lparr>grades := dict_set cid (py_dict_set student_id grade course_grades) (grades fs)\<rparr>,
                            evs @ [grade_submitted_event now student_id cid grade]))))"

fun processed_valid :: "pyval \<Rightarrow> bool" where
  "processed_valid (PDict d) = (map_of d ''valid'' = Some (PBool True))"
| "processed_valid _ = False"

text \<open>The strategy \<open>submit_grades\<close> selects for a course id.\<close>

definition select_strategy :: "string \<Rightarrow> GradeProcessingStrategy" where
  "select_strategy cid = (if prefix ''PF'' cid then PassFailGradeStrategy else LetterGradeStrategy)"

text \<open>\<open>POST /submit_grades\<close>.\<close>

definition submit_grades :: "string \<Rightarrow> request_body \<Rightarrow> faculty_service \<Rightarrow> response \<times> faculty_service \<times> Event list" where
  "submit_grades now body fs =
     (case get_json body of
        Inl e \<Rightarrow> (Unhandled e, fs, [])
      | Inr d \<Rightarrow>
          (case known_course (map_of d ''course_id'') (courses fs) of
             Inl e \<Rightarrow> (Unhandled e, fs, [])
           | Inr None \<Rightarrow> (Response 404 (PDict [(''error'', PStr ''Course not found'')]), fs, [])
           | Inr (Some cid) \<Rightarrow>
               (case map_of d ''grades'' of
                  Some (PList grades_data) \<Rightarrow>
                    (case GradeProcessor_process (select_strategy cid) grades_data of
                       Inl e \<Rightarrow> (Unhandled e, fs, [])
                     | Inr processed \<Rightarrow>
                         if \<not> processed_valid processed
                         then (Response 400
                                 (PDict [(''success'', PBool False),
                                         (''error'', PStr ''Invalid grade entries''),
                                         (''details'', processed)]),
                               fs, [])
                         else
                           (let fs1 = (if cid \<notin> fst ` set (grades fs)
                                       then fs\<lparr>grades := dict_set cid [] (grades fs)\<rparr> else fs)
                            in case store_grades now cid grades_data (fs1, []) of
                                 (Some e, fs2, evs) \<Rightarrow> (Unhandled e, fs2, evs)
                               | (None, fs2, evs) \<Rightarrow>
                                   (Response 200
                                      (PDict [(''success'', PBool True),
                                              (''message'',
                                               PStr (''Grades submitted for '' @ str_of_nat (length grades_data)
                                                     @ '' students in '' @ cid)),
                                              (''processing'', processed)]),
                                    fs2, evs)))
                | _ \<Rightarrow> (Response 400 (PDict [(''error'', PStr ''Invalid grades payload'')]), fs, []))))"

section \<open>Event bus\<close>














section \<open>Subscribers\<close>











section \<open>Administrator service\<close>

text \<open>
  Two built-ins of Python are parameters of the admin views: \<open>py_int v\<close> is \<open>int(v)\<close> for a
  value that is not an integer (\<open>None\<close> when the conversion raises), and \<open>repr v\<close> is what
  \<open>str(v)\<close> returns for a value that is not a string.
\<close>

definition py_str :: "(pyval \<Rightarrow> string) \<Rightarrow> pyval \<Rightarrow> string" where
  "py_str repr v = (case v of PStr s \<Rightarrow> s | _ \<Rightarrow> repr v)"

definition AdminNotificationFactory_create :: "(pyval \<Rightarrow> string) \<Rightarrow> string \<Rightarrow> string \<Rightarrow> (string \<times> pyval) list \<Rightarrow> pyval" where
  "AdminNotificationFactory_create repr now notification_type d =
     (let base = [(''type'', PStr notification_type), (''timestamp'', PStr now)]
      in if notification_type = ''system_config_updated''
         then PDict (base @
                [(''message'', (case map_of d ''message'' of
                                  None \<Rightarrow> PStr ''System configuration updated'' | Some v \<Rightarrow> v)),
                 (''recipients'', PList [PStr ''students'', PStr ''faculty'', PStr ''administrators''])])
         else if notification_type = ''course_created''
         then PDict (base @
                [(''message'',
                  PStr (''Course '' @ py_str repr (case map_of d ''course_id'' of None \<Rightarrow> PNone | Some v \<Rightarrow> v)
                        @ '' created'')),
                 (''recipients'', PList [PStr ''administrators'', PStr ''faculty''])])
         else PDict (base @
                [(''message'', (case map_of d ''message'' of None \<Rightarrow> PStr ''Notification'' | Some v \<Rightarrow> v))]))"

text \<open>
  A course object of the admin service goes with the flag that its \<open>capacity\<close> attribute is
  a \<open>bool\<close>.
\<close>

type_synonym admin_service = "(Course \<times> bool) service"

definition AdminService_init :: admin_service where
  "AdminService_init =
     \<lparr>courses =
        [(''CS101'', (\<lparr>course_id = ''CS101'', name = ''Intro to Programming'', instructor = ''Dr. Smith'',
                       capacity = 30, enrolled = 25, prerequisites = []\<rparr>, False)),
         (''CS201'', (\<lparr>course_id = ''CS201'', name = ''Data Structures'', instructor = ''Dr. Johnson'',
                       capacity = 25, enrolled = 20, prerequisites = []\<rparr>, False)),
         (''CS301'', (\<lparr>course_id = ''CS301'', name = ''Algorithms'', instructor = ''Dr. Brown'',
                       capacity = 20, enrolled = 15, prerequisites = []\<rparr>, False))]\<rparr>"

text \<open>
  The capacity \<open>create_course\<close> gives the new course, as a number and with the flag that it
  is a \<open>bool\<close>: \<open>data.get('capacity', 20)\<close>, kept when it is an \<open>int\<close> (a \<open>bool\<close> is one),
  converted with \<open>int\<close> otherwise, and 20 when the conversion raises.
\<close>

fun course_capacity :: "(pyval \<Rightarrow> int option) \<Rightarrow> pyval option \<Rightarrow> int \<times> bool" where
  "course_capacity py_int None = (20, False)"
| "course_capacity py_int (Some (PInt n)) = (n, False)"
| "course_capacity py_int (Some (PBool b)) = (if b then 1 else 0, True)"
| "course_capacity py_int (Some v) = (case py_int v of None \<Rightarrow> (20, False) | Some n \<Rightarrow> (n, False))"

fun course_prerequisites :: "(pyval \<Rightarrow> string) \<Rightarrow> pyval option \<Rightarrow> string list" where
  "course_prerequisites repr None = []"
| "course_prerequisites repr (Some (PList ps)) = map (py_str repr) ps"
| "course_prerequisites repr (Some v) = []"

definition course_created_event :: "(pyval \<Rightarrow> string) \<Rightarrow> string \<Rightarrow> string \<Rightarrow> string \<Rightarrow> string \<Rightarrow> Event" where
  "course_created_event repr now cid nm instr =
     \<lparr>event_type = ''course_created'',
      data = [(''course_id'', PStr cid), (''name'', PStr nm), (''instructor'', PStr instr),
              (''notification'',
               AdminNotificationFactory_create repr now ''course_created'' [(''course_id'', PStr cid)])],
      timestamp = now\<rparr>"

text \<open>
  \<open>POST /course\<close>. The course is stored and the event published before the response is
  shaped, so an exception of the factory leaves both in place.
\<close>

definition create_course :: "(int \<Rightarrow> int \<Rightarrow> pyfloat) \<Rightarrow> (pyval \<Rightarrow> int option) \<Rightarrow> (pyval \<Rightarrow> string) \<Rightarrow> string \<Rightarrow> request_body \<Rightarrow> admin_service \<Rightarrow> response \<times> admin_service \<times> Event list" where
  "create_course pct py_int repr now body st =
     (case get_json body of
        Inl e \<Rightarrow> (Unhandled e, st, [])
      | Inr d \<Rightarrow>
          (case get_str (map_of d ''course_id'') of
             None \<Rightarrow> (Response 400 (PDict [(''error'', PStr ''Invalid payload: course_id'')]), st, [])
           | Some cid \<Rightarrow>
          (case get_str (map_of d ''name'') of
             None \<Rightarrow> (Response 400 (PDict [(''error'', PStr ''Invalid payload: name'')]), st, [])
           | Some nm \<Rightarrow>
          (case get_str (map_of d ''instructor'') of
             None \<Rightarrow> (Response 400 (PDict [(''error'', PStr ''Invalid payload: instructor'')]), st, [])
           | Some instr \<Rightarrow>
               if cid \<in> fst ` set (courses st)
               then (Response 400 (PDict [(''error'', PStr ''Course already exists'')]), st, [])
               else
                 (let cap = course_capacity py_int (map_of d ''capacity'');
                      new_course =
                        \<lparr>course_id = cid, name = nm, instructor = instr,
                         capacity = fst cap,
                         enrolled = 0,
                         prerequisites = course_prerequisites repr (map_of d ''prerequisites'')\<rparr>;
                      st' = st\<lparr>courses := dict_set cid (new_course, snd cap) (courses st)\<rparr>;
                      events = [course_created_event repr now cid nm instr]
                  in case AdminDTOFactory_create_response_dto pct now (PCourse new_course (snd cap)) of
                       Inl e \<Rightarrow> (Unhandled e, st', events)
                     | Inr response \<Rightarrow>
                         (Response 200 (PDict [(''success'', PBool True), (''course'', response)]),
                          st', events))))))"

text \<open>The per-course rows of the enrollment report, in the order of the course dictionary.\<close>

fun report_rows :: "(int \<Rightarrow> int \<Rightarrow> pyfloat) \<Rightarrow> (Course \<times> bool) list \<Rightarrow> exc + pyval list" where
  "report_rows pct [] = Inr []"
| "report_rows pct ((c, b) # cs) =
     (case round_percent pct (enrolled c) (capacity c) of
        Inl e \<Rightarrow> Inl e
      | Inr utilization \<Rightarrow>
          (case report_rows pct cs of
             Inl e \<Rightarrow> Inl e
           | Inr rows \<Rightarrow>
               Inr (PDict [(''course_id'', PStr (course_id c)),
                           (''name'', PStr (name c)),
                           (''enrolled'', PInt (enrolled c)),
                           (''capacity'', capacity_value c b),
                           (''utilization'', utilization)] # rows)))"

text \<open>\<open>GET /reports/enrollment\<close>.\<close>

definition generate_enrollment_report :: "(int \<Rightarrow> int \<Rightarrow> pyfloat) \<Rightarrow> string \<Rightarrow> admin_service \<Rightarrow> response" where
  "generate_enrollment_report pct now st =
     (let cs = map snd (courses st);
          total_capacity = sum_list (map (capacity \<circ> fst) cs);
          total_enrolled = sum_list (map (enrolled \<circ> fst) cs)
      in case report_rows pct cs of
           Inl e \<Rightarrow> Unhandled e
         | Inr rows \<Rightarrow>
             (case round_percent pct total_enrolled total_capacity of
                Inl e \<Rightarrow> Unhandled e
              | Inr overall \<Rightarrow>
                  (case AdminDTOFactory_create_response_dto pct now
                          (PDict [(''report_type'', PStr ''enrollment_summary''),
                                  (''data'', PList rows),
                                  (''summary'',
                                   PDict [(''total_courses'', PInt (int (length (courses st)))),
                                          (''total_capacity'', PInt total_capacity),
                                          (''total_enrolled'', PInt total_enrolled),
                                          (''overall_utilization'', overall)])]) of
                     Inl e \<Rightarrow> Unhandled e
                   | Inr response \<Rightarrow> Response 200 response)))"

section \<open>Auxiliary notions for the proofs\<close>

text \<open>
  The trace the pipeline is specified to return: the results up to and including the first
  one that is not valid.
\<close>

definition up_to_first_failure :: "vresult list \<Rightarrow> vresult list" where
  "up_to_first_failure rs = takeWhile valid rs @ take 1 (dropWhile valid rs)"

text \<open>
  How often a course id occurs in the current-course lists of the student records, and the
  invariant of the student service: for every course, that number is at most the enrolled
  count, which is at most the capacity.
\<close>

definition occurrences :: "(string \<times> student_record) list \<Rightarrow> string \<Rightarrow> nat" where
  "occurrences sd cid = sum_list (map (\<lambda>kv. count_list (current_courses (snd kv)) cid) sd)"

definition enrollment_inv :: "student_service \<Rightarrow> bool" where
  "enrollment_inv st \<longleftrightarrow>
     (\<forall>cid c. map_of (courses st) cid = Some c \<longrightarrow>
        int (occurrences (student_data st) cid) \<le> enrolled c \<and> enrolled c \<le> capacity c)"

text \<open>The state change of a successful \<open>drop_course\<close>.\<close>

definition drop_commit :: "string \<Rightarrow> string \<Rightarrow> Course \<Rightarrow> student_record \<Rightarrow> student_service \<Rightarrow> student_service" where
  "drop_commit sid cid c r st =
     st\<lparr>courses := dict_set cid (c\<lparr>enrolled := enrolled c - 1\<rparr>) (courses st),
        student_data := dict_set sid (r\<lparr>current_courses := remove1 cid (current_courses r)\<rparr>) (student_data st)\<rparr>"





section \<open>Verification\<close>

subsection \<open>The validation pipeline\<close>

lemma validate_loop_eq:
  "validate_loop strategies sid cid ctx acc =
     acc @ up_to_first_failure (map (\<lambda>s. s sid cid ctx) strategies)"
  by (induction strategies arbitrary: acc) (simp_all add: up_to_first_failure_def Let_def)

lemma validate_all_eq:
  "validate_all strategies sid cid ctx = up_to_first_failure (map (\<lambda>s. s sid cid ctx) strategies)"
  by (simp add: validate_all_def validate_loop_eq)

lemma up_to_first_failure_all:
  "list_all valid (up_to_first_failure rs) \<longleftrightarrow> list_all valid rs"
  by (induction rs) (simp_all add: up_to_first_failure_def)

lemma find_up_to_first_failure:
  "\<not> list_all valid rs \<Longrightarrow>
   find (\<lambda>r. \<not> valid r) (up_to_first_failure rs) = Some (hd (dropWhile valid rs))"
  by (induction rs) (simp_all add: up_to_first_failure_def)

lemma enroll_student_failure:
  assumes "get_json body = Inr d"
    and "get_str (map_of d ''student_id'') = Some sid"
    and "get_str (map_of d ''course_id'') = Some cid"
    and "map_of (courses st) cid = Some c"
    and "\<not> list_all valid (map (\<lambda>s. s sid cid (enroll_context st sid c)) (enroll_strategies c))"
  shows "enroll_student now body st =
           (Response 400
              (PDict [(''success'', PBool False),
                      (''message'', PStr (message (hd (dropWhile valid
                          (map (\<lambda>s. s sid cid (enroll_context st sid c)) (enroll_strategies c)))))),
                      (''validation_results'', PList (map vresult_json (up_to_first_failure
                          (map (\<lambda>s. s sid cid (enroll_context st sid c)) (enroll_strategies c)))))]),
            st, [])"
  using assms
  by (simp add: enroll_student_def validate_all_eq up_to_first_failure_all find_up_to_first_failure)

lemma enroll_student_success:
  assumes "get_json body = Inr d"
    and "get_str (map_of d ''student_id'') = Some sid"
    and "get_str (map_of d ''course_id'') = Some cid"
    and "map_of (courses st) cid = Some c"
    and "list_all valid (map (\<lambda>s. s sid cid (enroll_context st sid c)) (enroll_strategies c))"
  shows "snd (enroll_student now body st) =
           (enroll_commit now sid cid c st, [student_enrolled_event now sid cid])"
  using assms
  by (simp add: enroll_student_def validate_all_eq up_to_first_failure_all)

text \<open>
  Claim C2. \<open>validate_all\<close> returns the results of the validators, taken in order, up to and
  including the first one that is not valid: every earlier entry is valid and no validator
  after the first failure contributes an entry. When the pipeline of \<open>POST /enroll\<close> fails,
  the view answers 400, leaves the state alone, and the message it surfaces is the message
  of that first invalid result.
\<close>

theorem validate_all_stops_at_first_failure:
  "validate_all strategies sid cid ctx
     = takeWhile valid (map (\<lambda>s. s sid cid ctx) strategies)
       @ take 1 (dropWhile valid (map (\<lambda>s. s sid cid ctx) strategies))
   \<and> (get_json body = Inr d \<and> get_str (map_of d ''student_id'') = Some student \<and>
      get_str (map_of d ''course_id'') = Some target \<and> map_of (courses st) target = Some c \<and>
      \<not> list_all valid (map (\<lambda>s. s student target (enroll_context st student c)) (enroll_strategies c))
      \<longrightarrow> enroll_student now body st =
           (Response 400
              (PDict [(''success'', PBool False),
                      (''message'', PStr (message (hd (dropWhile valid
                          (map (\<lambda>s. s student target (enroll_context st student c)) (enroll_strategies c)))))),
                      (''validation_results'', PList (map vresult_json
                          (validate_all (enroll_strategies c) student target (enroll_context st student c))))]),
            st, []))"
  using enroll_student_failure[of body d student target st c now]
  by (simp add: validate_all_eq) (simp add: up_to_first_failure_def)

theorem validate_all_stops_at_first_failure_witness:
  "validate_all [CapacityValidationStrategy_validate, ScheduleConflictValidationStrategy_validate]
     ''STU001'' ''CS101''
     \<lparr>course = Some \<lparr>course_id = ''CS101'', name = ''Intro to Programming'', instructor = ''Dr. Smith'',
                      capacity = 30, enrolled = 30, prerequisites = []\<rparr>,
      student_completed_courses = [''CS101''],
      student_current_courses = [''CS201'']\<rparr>
     = [\<lparr>valid = False, message = ''Course is at full capacity''\<rparr>]
   \<and> enroll_student ''2025-01-01T09:00:00''
       (JsonObject [(''student_id'', PStr ''STU002''), (''course_id'', PStr ''CS201'')])
       StudentService_init =
     (Response 400
        (PDict [(''success'', PBool False),
                (''message'', PStr ''Missing prerequisites: CS101''),
                (''validation_results'',
                 PList [PDict [(''valid'', PBool False),
                               (''message'', PStr ''Missing prerequisites: CS101'')]])]),
      StudentService_init, [])"
  using validate_all_stops_at_first_failure
    [of "[CapacityValidationStrategy_validate, ScheduleConflictValidationStrategy_validate]"
        "''STU001''" "''CS101''"
        "\<lparr>course = Some \<lparr>course_id = ''CS101'', name = ''Intro to Programming'', instructor = ''Dr. Smith'',
                      capacity = 30, enrolled = 30, prerequisites = []\<rparr>,
          student_completed_courses = [''CS101''],
          student_current_courses = [''CS201'']\<rparr>"
        "JsonObject [(''student_id'', PStr ''STU002''), (''course_id'', PStr ''CS201'')]"
        "[(''student_id'', PStr ''STU002''), (''course_id'', PStr ''CS201'')]"
        "''STU002''" "''CS201''" StudentService_init
        "\<lparr>course_id = ''CS201'', name = ''Data Structures'', instructor = ''Dr. Johnson'',
          capacity = 25, enrolled = 20, prerequisites = [''CS101'']\<rparr>"
        "''2025-01-01T09:00:00''"]
  by (simp add: StudentService_init_def enroll_strategies_def enroll_context_def
        PrerequisiteValidationStrategy_validate_def CapacityValidationStrategy_validate_def
        ScheduleConflictValidationStrategy_validate_def vresult_json_def validate_all_def Let_def)

subsection \<open>Prerequisites\<close>




subsection \<open>The schedule-conflict validator\<close>

text \<open>
  Claim C8, as stated, fails: for a context without a course the validator answers invalid
  although the student has fewer than five current courses.
\<close>

theorem schedule_conflict_counterexample:
  "\<not> (valid (ScheduleConflictValidationStrategy_validate ''STU002'' ''CS999''
              \<lparr>course = None, student_completed_courses = [], student_current_courses = []\<rparr>)
        \<longleftrightarrow> \<not> 5 \<le> length (student_current_courses
              \<lparr>course = None, student_completed_courses = [], student_current_courses = []\<rparr>))"
  by (simp add: ScheduleConflictValidationStrategy_validate_def)

text \<open>
  Claim C8, amended. For every validation context that holds a course, the
  schedule-conflict validator returns invalid exactly when the student's current-course
  count is at least 5 and valid in every other case; for a context without a course it
  returns invalid with the message \<open>Course not found\<close>, whatever the count.
\<close>

theorem schedule_conflict_with_course:
  "(course ctx \<noteq> None \<longrightarrow>
      (valid (ScheduleConflictValidationStrategy_validate sid cid ctx)
         \<longleftrightarrow> \<not> 5 \<le> length (student_current_courses ctx)))
   \<and> (course ctx = None \<longrightarrow>
      ScheduleConflictValidationStrategy_validate sid cid ctx
        = \<lparr>valid = False, message = ''Course not found''\<rparr>)"
  by (auto simp: ScheduleConflictValidationStrategy_validate_def split: option.splits)

theorem schedule_conflict_with_course_witness:
  "valid (ScheduleConflictValidationStrategy_validate ''STU001'' ''CS201''
            \<lparr>course = Some \<lparr>course_id = ''CS201'', name = ''Data Structures'', instructor = ''Dr. Johnson'',
                             capacity = 25, enrolled = 20, prerequisites = [''CS101'']\<rparr>,
             student_completed_courses = [''CS101''],
             student_current_courses = [''CS201'']\<rparr>)
   \<and> ScheduleConflictValidationStrategy_validate ''STU002'' ''CS999''
        \<lparr>course = None, student_completed_courses = [], student_current_courses = []\<rparr>
      = \<lparr>valid = False, message = ''Course not found''\<rparr>"
  using schedule_conflict_with_course
    [of "\<lparr>course = Some \<lparr>course_id = ''CS201'', name = ''Data Structures'', instructor = ''Dr. Johnson'',
                          capacity = 25, enrolled = 20, prerequisites = [''CS101'']\<rparr>,
          student_completed_courses = [''CS101''],
          student_current_courses = [''CS201'']\<rparr>" "''STU001''" "''CS201''"]
    schedule_conflict_with_course
    [of "\<lparr>course = None, student_completed_courses = [], student_current_courses = []\<rparr>"
        "''STU002''" "''CS999''"]
  by simp

subsection \<open>Repeated enrollment\<close>

text \<open>
  Claim C10. In the seeded state the student \<open>STU001\<close> is enrolled in \<open>CS201\<close>, and
  \<open>POST /enroll\<close> for the same student and course succeeds: there is no duplicate check,
  the enrolled count goes from 20 to 21 and the student's current courses hold the course
  id twice.
\<close>

theorem duplicate_enrollment_succeeds:
  "map_option current_courses (map_of (student_data StudentService_init) ''STU001'') = Some [''CS201'']
   \<and> map_option enrolled (map_of (courses StudentService_init) ''CS201'') = Some 20
   \<and> (case enroll_student ''2025-01-01T09:00:00''
             (JsonObject [(''student_id'', PStr ''STU001''), (''course_id'', PStr ''CS201'')])
             StudentService_init of
        (resp, st', evs) \<Rightarrow>
          resp = Response 200
                   (PDict [(''success'', PBool True),
                           (''message'', PStr ''Successfully enrolled in Data Structures''),
                           (''validation_results'',
                            PList [PDict [(''valid'', PBool True), (''message'', PStr ''Prerequisites satisfied'')],
                                   PDict [(''valid'', PBool True), (''message'', PStr ''Capacity available'')],
                                   PDict [(''valid'', PBool True), (''message'', PStr ''No schedule conflicts'')]])])
          \<and> map_option enrolled (map_of (courses st') ''CS201'') = Some 21
          \<and> map_option current_courses (map_of (student_data st') ''STU001'') = Some [''CS201'', ''CS201''])"
  by (simp add: StudentService_init_def enroll_student_def validate_all_def enroll_strategies_def
        enroll_context_def PrerequisiteValidationStrategy_validate_def
        CapacityValidationStrategy_validate_def ScheduleConflictValidationStrategy_validate_def
        enroll_commit_def vresult_json_def Let_def)


subsection \<open>The enrolled count\<close>

lemma map_of_dict_set: "map_of (dict_set k v al) = (map_of al)(k \<mapsto> v)"
  by (induction al) (auto simp: fun_eq_iff)

lemma occurrences_dict_set_Some:
  "map_of sd k = Some r \<Longrightarrow>
   occurrences (dict_set k r' sd) cid + count_list (current_courses r) cid
     = occurrences sd cid + count_list (current_courses r') cid"
  by (induction sd) (auto simp: occurrences_def split: if_splits)

lemma occurrences_dict_set_None:
  "map_of sd k = None \<Longrightarrow>
   occurrences (dict_set k r' sd) cid = occurrences sd cid + count_list (current_courses r') cid"
  by (induction sd) (auto simp: occurrences_def split: if_splits)

lemma count_list_remove1_same:
  "x \<in> set xs \<Longrightarrow> count_list (remove1 x xs) x + 1 = count_list xs x"
  by (induction xs) auto

lemma count_list_remove1_other:
  "y \<noteq> x \<Longrightarrow> count_list (remove1 x xs) y = count_list xs y"
  by (induction xs) auto

lemma enroll_cases:
  "fst (snd (enroll_student now body st)) = st \<or>
   (\<exists>sid cid c. map_of (courses st) cid = Some c \<and> enrolled c < capacity c \<and>
      fst (snd (enroll_student now body st)) = enroll_commit now sid cid c st)"
proof (cases "get_json body")
  case (Inl e)
  then show ?thesis by (simp add: enroll_student_def)
next
  case (Inr d)
  show ?thesis
  proof (cases "get_str (map_of d ''student_id'')")
    case None
    with Inr show ?thesis by (simp add: enroll_student_def)
  next
    case (Some sid)
    note sid = this
    show ?thesis
    proof (cases "get_str (map_of d ''course_id'')")
      case None
      with Inr sid show ?thesis by (simp add: enroll_student_def)
    next
      case (Some cid)
      note cid = this
      show ?thesis
      proof (cases "map_of (courses st) cid")
        case None
        with Inr sid cid show ?thesis by (simp add: enroll_student_def)
      next
        case (Some c)
        show ?thesis
        proof (cases "list_all valid (map (\<lambda>s. s sid cid (enroll_context st sid c)) (enroll_strategies c))")
          case True
          then have "valid (CapacityValidationStrategy_validate sid cid (enroll_context st sid c))"
            by (simp add: enroll_strategies_def split: if_splits)
          then have "enrolled c < capacity c"
            by (simp add: CapacityValidationStrategy_validate_def enroll_context_def split: if_splits)
          with enroll_student_success[OF Inr sid cid Some True, of now] Some show ?thesis
            by auto
        next
          case False
          from enroll_student_failure[OF Inr sid cid Some False, of now] show ?thesis by simp
        qed
      qed
    qed
  qed
qed

lemma enroll_commit_inv:
  assumes "enrollment_inv st" and "map_of (courses st) cid = Some c" and "enrolled c < capacity c"
  shows "enrollment_inv (enroll_commit now sid cid c st)"
  unfolding enrollment_inv_def
proof (intro allI impI)
  fix x c'
  assume a: "map_of (courses (enroll_commit now sid cid c st)) x = Some c'"
  have sd: "int (occurrences (student_data (enroll_commit now sid cid c st)) x)
            = int (occurrences (student_data st) x) + (if x = cid then 1 else 0)"
  proof (cases "map_of (student_data st) sid")
    case None
    then show ?thesis
      using occurrences_dict_set_None[of "student_data st" sid _ x]
      by (simp add: enroll_commit_def Let_def)
  next
    case (Some r)
    then show ?thesis
      using occurrences_dict_set_Some[of "student_data st" sid r
               "r\<lparr>current_courses := current_courses r @ [cid],
                  enrollment_history := enrollment_history r @
                   [PDict [(''course_id'', PStr cid), (''action'', PStr ''enrolled''),
                           (''timestamp'', PStr now)]]\<rparr>" x]
      by (simp add: enroll_commit_def Let_def)
  qed
  show "int (occurrences (student_data (enroll_commit now sid cid c st)) x) \<le> enrolled c' \<and>
        enrolled c' \<le> capacity c'"
  proof (cases "x = cid")
    case True
    with a have c': "c' = c\<lparr>enrolled := enrolled c + 1\<rparr>"
      by (simp add: enroll_commit_def Let_def map_of_dict_set)
    from assms(1,2) have "int (occurrences (student_data st) cid) \<le> enrolled c"
      by (auto simp: enrollment_inv_def)
    with c' True sd assms(3) show ?thesis by simp
  next
    case False
    with a have "map_of (courses st) x = Some c'"
      by (simp add: enroll_commit_def Let_def map_of_dict_set)
    with assms(1) False sd show ?thesis by (auto simp: enrollment_inv_def)
  qed
qed

lemma enroll_student_inv:
  "enrollment_inv st \<Longrightarrow> enrollment_inv (fst (snd (enroll_student now body st)))"
  using enroll_cases[of now body st] enroll_commit_inv by auto


lemma drop_cases:
  "fst (snd (drop_course now body st)) = st \<or>
   (\<exists>d sid cid c r. get_json body = Inr d \<and> get_str (map_of d ''student_id'') = Some sid \<and>
      get_str (map_of d ''course_id'') = Some cid \<and>
      map_of (courses st) cid = Some c \<and> map_of (student_data st) sid = Some r \<and>
      cid \<in> set (current_courses r) \<and>
      fst (snd (drop_course now body st)) = drop_commit sid cid c r st)"
  by (auto simp: drop_course_def drop_commit_def split: sum.splits option.splits)

lemma drop_commit_inv:
  assumes "enrollment_inv st" and "map_of (courses st) cid = Some c"
    and "map_of (student_data st) sid = Some r" and "cid \<in> set (current_courses r)"
  shows "enrollment_inv (drop_commit sid cid c r st)"
  unfolding enrollment_inv_def
proof (intro allI impI)
  fix x c'
  assume a: "map_of (courses (drop_commit sid cid c r st)) x = Some c'"
  have sd: "int (occurrences (student_data (drop_commit sid cid c r st)) x)
            = int (occurrences (student_data st) x) - (if x = cid then 1 else 0)"
    using occurrences_dict_set_Some[OF assms(3), of "r\<lparr>current_courses := remove1 cid (current_courses r)\<rparr>" x]
      count_list_remove1_same[OF assms(4)] count_list_remove1_other[of x cid "current_courses r"]
    by (auto simp: drop_commit_def)
  show "int (occurrences (student_data (drop_commit sid cid c r st)) x) \<le> enrolled c' \<and>
        enrolled c' \<le> capacity c'"
  proof (cases "x = cid")
    case True
    with a have c': "c' = c\<lparr>enrolled := enrolled c - 1\<rparr>"
      by (simp add: drop_commit_def map_of_dict_set)
    from assms(1,2) have "int (occurrences (student_data st) cid) \<le> enrolled c"
        "enrolled c \<le> capacity c"
      by (auto simp: enrollment_inv_def)
    with c' True sd show ?thesis by simp
  next
    case False
    with a have "map_of (courses st) x = Some c'"
      by (simp add: drop_commit_def map_of_dict_set)
    with assms(1) False sd show ?thesis by (auto simp: enrollment_inv_def)
  qed
qed

lemma drop_course_inv:
  "enrollment_inv st \<Longrightarrow> enrollment_inv (fst (snd (drop_course now body st)))"
  using drop_cases[of now body st] drop_commit_inv by auto

lemma student_step_inv: "enrollment_inv st \<Longrightarrow> enrollment_inv (student_step req st)"
  by (cases req) (simp_all add: enroll_student_inv drop_course_inv)

lemma run_requests_inv: "enrollment_inv st \<Longrightarrow> enrollment_inv (run_requests reqs st)"
  unfolding run_requests_def
  by (induction reqs arbitrary: st) (simp_all add: student_step_inv)

lemma init_inv: "enrollment_inv StudentService_init"
  by (auto simp: enrollment_inv_def StudentService_init_def occurrences_def split: if_splits)

lemma enroll_commit_enrolled:
  assumes "map_of (courses st) x = Some c0" 
     and "map_of (courses (enroll_commit now sid cid c st)) x = Some c'"
     and "map_of (courses st) cid = Some c"
   shows "enrolled c' = enrolled c0 + (if x = cid then 1 else 0)"
  using assms by (auto simp: enroll_commit_def Let_def map_of_dict_set split: if_splits)

lemma drop_commit_enrolled:
  assumes "map_of (courses st) x = Some c0" 
     and "map_of (courses (drop_commit sid cid c r st)) x = Some c'"
     and "map_of (courses st) cid = Some c"
   shows "enrolled c' = enrolled c0 - (if x = cid then 1 else 0)"
  using assms by (auto simp: drop_commit_def map_of_dict_set split: if_splits)

text \<open>
  Claim C1. After every sequence of \<open>POST /enroll\<close> and \<open>POST /drop\<close> requests from the
  seeded state, every course of the student service has its enrolled count within
  \<open>[0, capacity]\<close>. A request to enroll changes the enrolled count of a course only by adding
  one, and only when the count was below the capacity; a request to drop changes it only by
  subtracting one, and only when the student's current courses hold the course id.
\<close>

theorem enrolled_within_capacity:
  "(map_of (courses (run_requests reqs StudentService_init)) cid = Some c
      \<longrightarrow> 0 \<le> enrolled c \<and> enrolled c \<le> capacity c)
   \<and> (map_of (courses st) x = Some c0 \<and>
      map_of (courses (student_step (Enroll now body) st)) x = Some c' \<and> enrolled c' \<noteq> enrolled c0
      \<longrightarrow> enrolled c0 < capacity c0 \<and> enrolled c' = enrolled c0 + 1)
   \<and> (map_of (courses st) x = Some c0 \<and>
      map_of (courses (student_step (Drop now body) st)) x = Some c' \<and> enrolled c' \<noteq> enrolled c0
      \<longrightarrow> enrolled c' = enrolled c0 - 1 \<and>
          (\<exists>d sid r. get_json body = Inr d \<and> get_str (map_of d ''student_id'') = Some sid \<and>
             get_str (map_of d ''course_id'') = Some x \<and>
             map_of (student_data st) sid = Some r \<and> x \<in> set (current_courses r)))"
proof (intro conjI impI)
  assume a: "map_of (courses (run_requests reqs StudentService_init)) cid = Some c"
  have "enrollment_inv (run_requests reqs StudentService_init)"
    by (rule run_requests_inv[OF init_inv])
  with a have "int (occurrences (student_data (run_requests reqs StudentService_init)) cid) \<le> enrolled c"
     and le: "enrolled c \<le> capacity c"
    by (auto simp: enrollment_inv_def)
  then show "0 \<le> enrolled c" by linarith
  show "enrolled c \<le> capacity c" by (rule le)
next
  assume a: "map_of (courses st) x = Some c0 \<and>
      map_of (courses (student_step (Enroll now body) st)) x = Some c' \<and> enrolled c' \<noteq> enrolled c0"
  from enroll_cases[of now body st] a
  obtain sid cid c where c: "map_of (courses st) cid = Some c" "enrolled c < capacity c"
      "fst (snd (enroll_student now body st)) = enroll_commit now sid cid c st"
    by auto
  with a enroll_commit_enrolled[of st x c0 now sid cid c c']
  have e: "enrolled c' = enrolled c0 + (if x = cid then 1 else 0)" by simp
  with a have "x = cid" by (auto split: if_splits)
  with a c e show "enrolled c0 < capacity c0" "enrolled c' = enrolled c0 + 1" by auto
next
  assume a: "map_of (courses st) x = Some c0 \<and>
      map_of (courses (student_step (Drop now body) st)) x = Some c' \<and> enrolled c' \<noteq> enrolled c0"
  from drop_cases[of now body st] a
  obtain d sid cid c r where c: "get_json body = Inr d" "get_str (map_of d ''student_id'') = Some sid"
      "get_str (map_of d ''course_id'') = Some cid"
      "map_of (courses st) cid = Some c" "map_of (student_data st) sid = Some r"
      "cid \<in> set (current_courses r)"
      "fst (snd (drop_course now body st)) = drop_commit sid cid c r st"
    by auto
  with a drop_commit_enrolled[of st x c0 sid cid c r c']
  have e: "enrolled c' = enrolled c0 - (if x = cid then 1 else 0)" by simp
  with a have "x = cid" by (auto split: if_splits)
  with a c e show "enrolled c' = enrolled c0 - 1" 
     "\<exists>d sid r. get_json body = Inr d \<and> get_str (map_of d ''student_id'') = Some sid \<and>
             get_str (map_of d ''course_id'') = Some x \<and>
             map_of (student_data st) sid = Some r \<and> x \<in> set (current_courses r)" by auto
qed


theorem enrolled_within_capacity_witness:
  "map_of (courses (run_requests
       [Enroll ''2025-01-01T09:00:00'' (JsonObject [(''student_id'', PStr ''STU001''), (''course_id'', PStr ''CS201'')]),
        Drop ''2025-01-01T09:05:00'' (JsonObject [(''student_id'', PStr ''STU001''), (''course_id'', PStr ''CS201'')]),
        Drop ''2025-01-01T09:06:00'' (JsonObject [(''student_id'', PStr ''STU001''), (''course_id'', PStr ''CS201'')]),
        Drop ''2025-01-01T09:07:00'' (JsonObject [(''student_id'', PStr ''STU001''), (''course_id'', PStr ''CS201'')])]
       StudentService_init)) ''CS201''
     = Some \<lparr>course_id = ''CS201'', name = ''Data Structures'', instructor = ''Dr. Johnson'',
              capacity = 25, enrolled = 19, prerequisites = [''CS101'']\<rparr>
   \<and> map_of (courses (student_step
       (Enroll ''2025-01-01T09:00:00'' (JsonObject [(''student_id'', PStr ''STU001''), (''course_id'', PStr ''CS201'')]))
       StudentService_init)) ''CS201''
     = Some \<lparr>course_id = ''CS201'', name = ''Data Structures'', instructor = ''Dr. Johnson'',
              capacity = 25, enrolled = 21, prerequisites = [''CS101'']\<rparr>
   \<and> map_of (courses (student_step
       (Drop ''2025-01-01T09:00:00'' (JsonObject [(''student_id'', PStr ''STU001''), (''course_id'', PStr ''CS201'')]))
       StudentService_init)) ''CS201''
     = Some \<lparr>course_id = ''CS201'', name = ''Data Structures'', instructor = ''Dr. Johnson'',
              capacity = 25, enrolled = 19, prerequisites = [''CS101'']\<rparr>
   \<and> (\<exists>r. map_of (student_data StudentService_init) ''STU001'' = Some r \<and> ''CS201'' \<in> set (current_courses r))"
  using enrolled_within_capacity[of "[Enroll ''2025-01-01T09:00:00'' (JsonObject [(''student_id'', PStr ''STU001''), (''course_id'', PStr ''CS201'')]),
        Drop ''2025-01-01T09:05:00'' (JsonObject [(''student_id'', PStr ''STU001''), (''course_id'', PStr ''CS201'')]),
        Drop ''2025-01-01T09:06:00'' (JsonObject [(''student_id'', PStr ''STU001''), (''course_id'', PStr ''CS201'')]),
        Drop ''2025-01-01T09:07:00'' (JsonObject [(''student_id'', PStr ''STU001''), (''course_id'', PStr ''CS201'')])]"
       "''CS201''"
       "\<lparr>course_id = ''CS201'', name = ''Data Structures'', instructor = ''Dr. Johnson'',
              capacity = 25, enrolled = 19, prerequisites = [''CS101'']\<rparr>"
       StudentService_init "''CS201''"
       "\<lparr>course_id = ''CS201'', name = ''Data Structures'', instructor = ''Dr. Johnson'',
              capacity = 25, enrolled = 20, prerequisites = [''CS101'']\<rparr>"
       "''2025-01-01T09:00:00''"
       "JsonObject [(''student_id'', PStr ''STU001''), (''course_id'', PStr ''CS201'')]"
       "\<lparr>course_id = ''CS201'', name = ''Data Structures'', instructor = ''Dr. Johnson'',
              capacity = 25, enrolled = 21, prerequisites = [''CS101'']\<rparr>"]
     enrolled_within_capacity[of "[]" "''CS201''"
       "\<lparr>course_id = ''CS201'', name = ''Data Structures'', instructor = ''Dr. Johnson'',
              capacity = 25, enrolled = 20, prerequisites = [''CS101'']\<rparr>"
       StudentService_init "''CS201''"
       "\<lparr>course_id = ''CS201'', name = ''Data Structures'', instructor = ''Dr. Johnson'',
              capacity = 25, enrolled = 20, prerequisites = [''CS101'']\<rparr>"
       "''2025-01-01T09:00:00''"
       "JsonObject [(''student_id'', PStr ''STU001''), (''course_id'', PStr ''CS201'')]"
       "\<lparr>course_id = ''CS201'', name = ''Data Structures'', instructor = ''Dr. Johnson'',
              capacity = 25, enrolled = 19, prerequisites = [''CS101'']\<rparr>"]
  by (simp add: run_requests_def StudentService_init_def enroll_student_def drop_course_def
        validate_all_def enroll_strategies_def enroll_context_def
        PrerequisiteValidationStrategy_validate_def CapacityValidationStrategy_validate_def
        ScheduleConflictValidationStrategy_validate_def enroll_commit_def Let_def)

subsection \<open>Grade batches\<close>

text \<open>
  Claim C4 on the code. The batch below holds an entry with the illegal grade \<open>Z\<close> and an
  entry whose grade is a JSON array. The membership test of \<open>process\<close> hashes the array
  and raises \<open>TypeError\<close>, which leaves the view (status 500) where the claim has 400 with
  the invalid entries; the same happens with an entry that is not a JSON object
  (\<open>AttributeError\<close>). Nothing is stored and nothing is published in either case.
\<close>

theorem submit_grades_ill_typed_entry_raises:
  "submit_grades ''2025-01-01T09:00:00''
     (JsonObject [(''course_id'', PStr ''CS101''),
                  (''grades'', PList [PDict [(''student_id'', PStr ''STU004''), (''grade'', PStr ''Z'')],
                                      PDict [(''student_id'', PStr ''STU001''),
                                             (''grade'', PList [PStr ''A''])]])])
     FacultyService_init
     = (Unhandled TypeError, FacultyService_init, [])
   \<and> submit_grades ''2025-01-01T09:00:00''
       (JsonObject [(''course_id'', PStr ''CS101''),
                    (''grades'', PList [PDict [(''student_id'', PStr ''STU004''), (''grade'', PStr ''Z'')],
                                        PStr ''STU001''])])
       FacultyService_init
     = (Unhandled AttributeError, FacultyService_init, [])"
  by (simp add: submit_grades_def FacultyService_init_def GradeProcessor_process_def process_def
        select_strategy_def)

subsection \<open>The dispatcher\<close>














subsection \<open>Rosters\<close>












































subsection \<open>Response shaping\<close>




subsection \<open>Course capacity\<close>

lemma true_div_bound: "(1::int) \<le> 2 ^ 1024 - 2 ^ 970"
proof -
  have "(2::int) ^ 1024 = 2 ^ 970 * 2 ^ 54" by (simp add: power_add [symmetric])
  moreover have "(1::int) \<le> 2 ^ 970" by simp
  moreover have "(2::int) \<le> 2 ^ 54" by simp
  ultimately have "(2::int) ^ 970 * 2 \<le> 2 ^ 1024"
    by (metis mult_left_mono zero_le_numeral zero_le_power)
  with \<open>(1::int) \<le> 2 ^ 970\<close> show ?thesis by linarith
qed

lemma no_overflow_below_one: "\<bar>a\<bar> < \<bar>b\<bar> \<Longrightarrow> \<not> int_true_div_overflows a b"
proof -
  assume a: "\<bar>a\<bar> < \<bar>b\<bar>"
  have "1 * \<bar>b\<bar> \<le> (2 ^ 1024 - 2 ^ 970) * \<bar>b\<bar>"
    by (rule mult_right_mono[OF true_div_bound]) simp
  with a show ?thesis by (simp add: int_true_div_overflows_def)
qed

text \<open>
  Claim C9 on the code. The seeded courses of the three services have a positive capacity.
  \<open>POST /course\<close> with the capacity 0 is not rejected and the capacity is not replaced: the
  course is stored with capacity 0 and the event is published, and then the response
  factory divides by the capacity and raises \<open>ZeroDivisionError\<close> (status 500). From then
  on \<open>GET /reports/enrollment\<close> raises \<open>ZeroDivisionError\<close> as well.
\<close>

theorem create_course_zero_capacity_raises:
  "list_all (\<lambda>kv. 0 < capacity (snd kv)) (courses StudentService_init)
   \<and> list_all (\<lambda>kv. 0 < capacity (snd kv)) (courses FacultyService_init)
   \<and> list_all (\<lambda>kv. 0 < capacity (fst (snd kv))) (courses AdminService_init)
   \<and> (case create_course pct py_int repr ''2025-01-01T09:00:00''
             (JsonObject [(''course_id'', PStr ''CS500''), (''name'', PStr ''Seminar''),
                          (''instructor'', PStr ''Dr. Wilson''), (''capacity'', PInt 0)])
             AdminService_init of
        (resp, st', evs) \<Rightarrow>
          resp = Unhandled ZeroDivisionError
          \<and> map_of (courses st') ''CS500''
              = Some (\<lparr>course_id = ''CS500'', name = ''Seminar'', instructor = ''Dr. Wilson'',
                        capacity = 0, enrolled = 0, prerequisites = []\<rparr>, False)
          \<and> map event_type evs = [''course_created'']
          \<and> generate_enrollment_report pct ''2025-01-01T09:05:00'' st' = Unhandled ZeroDivisionError)"
  by (simp add: StudentService_init_def FacultyService_init_def AdminService_init_def
        create_course_def generate_enrollment_report_def round_percent_def
        course_created_event_def no_overflow_below_one Let_def)

end
